theory Spec2Isabelle
  imports Complex_Main
begin

section \<open>Texts, numbers and joins\<close>

text \<open>
  A JavaScript string is a sequence of UTF-16 code units and \<open>.length\<close> counts them. A text
  is modelled by the list of its code units, written as an Isabelle string; \<open>length\<close> is
  \<open>.length\<close>.
\<close>

definition digit_char :: "nat \<Rightarrow> char" where
  "digit_char d = char_of (48 + d)"

text \<open>Number-to-string conversion of a non-negative integer, as a template literal does it.\<close>

function decimal :: "nat \<Rightarrow> string" where
  "decimal n = (if n < 10 then [digit_char n] else decimal (n div 10) @ [digit_char (n mod 10)])"
  by pat_completeness auto
termination
  by (relation "measure (\<lambda>n. n)") auto

text \<open>\<open>Array.prototype.join\<close> on an array of strings.\<close>

fun join :: "string \<Rightarrow> string list \<Rightarrow> string" where
  "join sep [] = []"
| "join sep [x] = x"
| "join sep (x # y # ys) = x @ sep @ join sep (y # ys)"

section \<open>The syntax tree of the TypeScript compiler API\<close>

text \<open>
  The parser, the tree visitor and the printer belong to the \<open>typescript\<close> package, not to
  this repository. The tree is modelled as the compiler API presents it to a visitor: every
  node has a kind, the text of its token (identifier name, literal, keyword or punctuation; empty
  for a node with no token of its own), the comments of its leading and trailing trivia, and its
  children in source order. Comments are trivia, not nodes: a documentation comment is a
  comment whose text starts with \<open>/**\<close>.
\<close>

datatype SyntaxKind =
    SourceFile | VariableStatement | VariableDeclarationList | VariableDeclaration
  | Identifier | StringLiteral | NumericLiteral | Token
  | FunctionDeclaration | Parameter | Block | ReturnStatement | ExpressionStatement
  | CallExpression | PropertyAccessExpression | ObjectLiteralExpression | PropertyAssignment
  | ImportDeclaration | ImportClause | NamedImports | ImportSpecifier
  | ExportDeclaration | NamedExports | ExportSpecifier | TypeReference
  | JSDoc | JSDocText | JSDocTag | JSDocLink | JSDocLinkCode | JSDocLinkPlain
  | JSDocTypeLiteral | JSDocSignature | JSDocNamepathType

datatype node =
  Node (kind: SyntaxKind) (node_text: string) (leadingComments: "string list")
       (trailingComments: "string list") (children: "node list")

text \<open>\<open>ts.isJSDocCommentContainingNode\<close>: the kinds of the nodes inside a JSDoc comment.\<close>

definition isJSDocCommentContainingNode :: "node \<Rightarrow> bool" where
  "isJSDocCommentContainingNode n =
     (kind n \<in> {JSDoc, JSDocNamepathType, JSDocText, JSDocLink, JSDocLinkCode, JSDocLinkPlain,
                 JSDocTag, JSDocTypeLiteral, JSDocSignature})"

definition isIdentifier :: "node \<Rightarrow> bool" where
  "isIdentifier n = (kind n = Identifier)"

text \<open>
  \<open>ts.isVariableDeclaration(node.parent)\<close>: the parser was asked to set parent pointers, and
  the visitor walks the parsed tree, so the parent of a visited node is the node whose children
  are being visited. The parent's kind is passed down; the root has none.
\<close>

definition isVariableDeclaration :: "SyntaxKind option \<Rightarrow> bool" where
  "isVariableDeclaration parent = (parent = Some VariableDeclaration)"

text \<open>\<open>ts.factory.createIdentifier\<close>: a fresh node, with no trivia of the source attached.\<close>

definition createIdentifier :: "string \<Rightarrow> node" where
  "createIdentifier name = Node Identifier name [] [] []"

text \<open>\<open>ts.visitEachChild\<close>: the node rebuilt around its visited children.\<close>

definition visitEachChild :: "node \<Rightarrow> (node \<Rightarrow> node) \<Rightarrow> node" where
  "visitEachChild n visitor =
     Node (kind n) (node_text n) (leadingComments n) (trailingComments n) (map visitor (children n))"

lemma visitEachChild_cong [fundef_cong]:
  "n = n' \<Longrightarrow> (\<And>c. c \<in> set (children n') \<Longrightarrow> f c = g c)
     \<Longrightarrow> visitEachChild n f = visitEachChild n' g"
  by (simp add: visitEachChild_def cong: map_cong)

lemma size_child [termination_simp]: "c \<in> set (children n) \<Longrightarrow> size c < size n"
  by (cases n) (auto simp: less_Suc_eq_le size_list_estimation')

section \<open>The compressor\<close>

datatype CompressionLevel = NONE | MINIMAL | AGGRESSIVE

datatype OutputFormat = Single | Multiple

record CompressOptions =
  level :: CompressionLevel
  outputFormat :: OutputFormat
  generateSourceMaps :: "bool option"
  customNamePatterns :: "string list option"
  excludePatterns :: "string list option"
  input :: "string list option"

definition shortenName :: "string \<Rightarrow> string" where
  "shortenName name = CHR ''_'' # decimal (length name)"

function minimalCompression :: "node \<Rightarrow> node" where
  "minimalCompression n =
     (if isJSDocCommentContainingNode n \<or> kind n = JSDoc then n
      else visitEachChild n (\<lambda>child. minimalCompression child))"
  by pat_completeness auto
termination
  by (relation "measure size") (auto simp: size_child)

function aggressiveCompression :: "SyntaxKind option \<Rightarrow> node \<Rightarrow> node" where
  "aggressiveCompression parent n =
     (if isIdentifier n \<and> isVariableDeclaration parent
      then createIdentifier (shortenName (node_text n))
      else visitEachChild n (\<lambda>child. aggressiveCompression (Some (kind n)) child))"
  by pat_completeness auto
termination
  by (relation "measure (\<lambda>(p, n). size n)") (auto simp: size_child)

function visitor :: "CompressOptions \<Rightarrow> SyntaxKind option \<Rightarrow> node \<Rightarrow> node" where
  "visitor options parent n =
     (case level options of
        MINIMAL \<Rightarrow> minimalCompression n
      | AGGRESSIVE \<Rightarrow> aggressiveCompression parent n
      | NONE \<Rightarrow> visitEachChild n (\<lambda>child. visitor options (Some (kind n)) child))"
  by pat_completeness auto
termination
  by (relation "measure (\<lambda>(opts, p, n). size n)") (auto simp: size_child)

declare minimalCompression.simps [simp del] aggressiveCompression.simps [simp del]
  visitor.simps [simp del] decimal.simps [simp del]

subsection \<open>Reading the identifiers of a tree\<close>

text \<open>
  Two readings of a tree, to state what the AGGRESSIVE rewriter does to identifiers. Both walk
  the tree in pre-order with the parent's kind at hand, as the rewriter does, and do not look
  below an identifier that sits directly under a variable declaration.
  \<open>declarationNames\<close> lists the names of the variable declarations: a variable declaration's
  name is its first child, when that is an identifier (and not a binding pattern).
  \<open>otherIdentifiers\<close> lists the identifiers whose parent is not a variable declaration.
\<close>

function declarationNames :: "SyntaxKind option \<Rightarrow> node \<Rightarrow> string list" where
  "declarationNames parent n =
     (if isIdentifier n \<and> isVariableDeclaration parent then []
      else (if kind n = VariableDeclaration
            then (case children n of
                    [] \<Rightarrow> []
                  | c # cs \<Rightarrow> if isIdentifier c then [node_text c] else [])
            else [])
           @ concat (map (declarationNames (Some (kind n))) (children n)))"
  by pat_completeness auto
termination
  by (relation "measure (\<lambda>(p, n). size n)") (auto simp: size_child)

function otherIdentifiers :: "SyntaxKind option \<Rightarrow> node \<Rightarrow> string list" where
  "otherIdentifiers parent n =
     (if isIdentifier n \<and> isVariableDeclaration parent then []
      else (if isIdentifier n then [node_text n] else [])
           @ concat (map (otherIdentifiers (Some (kind n))) (children n)))"
  by pat_completeness auto
termination
  by (relation "measure (\<lambda>(p, n). size n)") (auto simp: size_child)

declare declarationNames.simps [simp del] otherIdentifiers.simps [simp del]

section \<open>The printer\<close>

text \<open>
  Modelled from the spec: the printer, \<open>ts.createPrinter({removeComments}).printFile\<close> of the
  \<open>typescript\<close> package, which the sources only call. By its contract (section 4.3) it
  serialises the tree in source order and, when told to strip comments, lets no comment token
  appear in the text. The exact white space the printer puts between tokens is not modelled:
  tokens are separated by one space and a comment ends its line. Nor is the one comment the
  package's printer keeps when it strips, a pinned \<open>/*!\<close> header at the top of a file; no
  statement below is about such a header.
\<close>

datatype token = Code string | Comment string

fun emitNode :: "bool \<Rightarrow> node \<Rightarrow> token list" where
  "emitNode removeComments (Node k t leading trailing cs) =
     (if removeComments then [] else map Comment leading)
     @ (if t = [] then [] else [Code t])
     @ concat (map (emitNode removeComments) cs)
     @ (if removeComments then [] else map Comment trailing)"

fun tokenText :: "token \<Rightarrow> string" where
  "tokenText (Code s) = s"
| "tokenText (Comment s) = s @ [CHR 0x0A]"

definition printFile :: "bool \<Rightarrow> node \<Rightarrow> string" where
  "printFile removeComments sourceFile = join '' '' (map tokenText (emitNode removeComments sourceFile))"

text \<open>\<open>isJSDocLikeText\<close> of the compiler: a comment that opens with \<open>/**\<close> and is not \<open>/**/\<close>.\<close>

definition isJSDocLikeText :: "string \<Rightarrow> bool" where
  "isJSDocLikeText c = (take 3 c = ''/**'' \<and> take 4 c \<noteq> ''/**/'')"

section \<open>The position-map builder\<close>

text \<open>
  \<open>SourceMapGenerator\<close> of the \<open>source-map\<close> package: the output file's name and the
  mappings added so far. Its \<open>toString\<close> (the JSON text of the map) is a parameter of the
  environment.
\<close>

record Mapping =
  generated :: "nat \<times> nat"
  original :: "nat \<times> nat"
  source :: string

record SourceMapGenerator =
  file_name :: string
  mappings :: "Mapping list"

definition newSourceMapGenerator :: "string \<Rightarrow> SourceMapGenerator" where
  "newSourceMapGenerator f = \<lparr>file_name = f, mappings = []\<rparr>"

section \<open>Paths (POSIX \<open>path\<close> module)\<close>

fun split :: "char \<Rightarrow> string \<Rightarrow> string list" where
  "split c [] = [[]]"
| "split c (x # xs) =
     (if x = c then [] # split c xs
      else (case split c xs of s # ss \<Rightarrow> (x # s) # ss | [] \<Rightarrow> [[x]]))"

definition basename :: "string \<Rightarrow> string" where
  "basename p =
     rev (takeWhile (\<lambda>c. c \<noteq> CHR ''/'') (dropWhile (\<lambda>c. c = CHR ''/'') (rev p)))"

definition extname :: "string \<Rightarrow> string" where
  "extname p =
     (let b = basename p; e = rev (takeWhile (\<lambda>c. c \<noteq> CHR ''.'') (rev b))
      in if CHR ''.'' \<notin> set b then []
         else if Suc (length e) = length b then []
         else if b = ''..'' then []
         else CHR ''.'' # e)"

definition normalizeStep :: "bool \<Rightarrow> string list \<Rightarrow> string \<Rightarrow> string list" where
  "normalizeStep allowAboveRoot res seg =
     (if seg = [] \<or> seg = ''.'' then res
      else if seg = ''..'' then
        (if res \<noteq> [] \<and> last res \<noteq> ''..'' then butlast res
         else if allowAboveRoot then res @ [''..'']
         else res)
      else res @ [seg])"

definition normalizeString :: "string \<Rightarrow> bool \<Rightarrow> string" where
  "normalizeString path allowAboveRoot =
     join ''/'' (foldl (normalizeStep allowAboveRoot) [] (split CHR ''/'' path))"

definition normalize :: "string \<Rightarrow> string" where
  "normalize path =
     (if path = [] then ''.''
      else let isAbsolute = (hd path = CHR ''/'');
               trailingSeparator = (last path = CHR ''/'');
               p = normalizeString path (\<not> isAbsolute)
           in if p = [] then (if isAbsolute then ''/'' else if trailingSeparator then ''./'' else ''.'')
              else (if isAbsolute then ''/'' else []) @ p @ (if trailingSeparator then ''/'' else []))"

definition path_join :: "string \<Rightarrow> string \<Rightarrow> string" where
  "path_join a b =
     (let joined = (if a = [] then b else if b = [] then a else a @ ''/'' @ b)
      in if joined = [] then ''.'' else normalize joined)"

section \<open>The file system and the environment\<close>

text \<open>
  The file system is a listing of paths with what is stored there; paths are looked up as
  written. What the libraries and the language compute and this repository only calls is a
  parameter of the environment: the glob matcher, the parser (which returns a tree for every
  text, with diagnostics for what it had to repair), the serialisation of a source map, and
  the rounding of an exact result to the nearest double, with which every arithmetic operation
  on numbers ends.
\<close>

text \<open>
  An entry is a regular file with its text, a directory, or something else (a device, a pipe)
  with the text a read of it yields; a write to the latter leaves the listing as it is.
\<close>

datatype fs_entry = File string | Directory | Other string

type_synonym file_system = "(string \<times> fs_entry) list"

datatype error = ENOENT string | EISDIR string | EEXIST string

record ParsedSourceFile =
  rootNode :: node
  parseDiagnostics :: "string list"

record environment =
  cwd :: string
  minimatch :: "string \<Rightarrow> string \<Rightarrow> bool"
  createSourceFile :: "string \<Rightarrow> string \<Rightarrow> ParsedSourceFile"
  sourceMapToString :: "SourceMapGenerator \<Rightarrow> string"
  toDouble :: "rat \<Rightarrow> rat"

definition statSync :: "file_system \<Rightarrow> string \<Rightarrow> error + fs_entry" where
  "statSync fs p = (case map_of fs p of None \<Rightarrow> Inl (ENOENT p) | Some e \<Rightarrow> Inr e)"

fun isDirectory :: "fs_entry \<Rightarrow> bool" where
  "isDirectory Directory = True"
| "isDirectory _ = False"

fun isFile :: "fs_entry \<Rightarrow> bool" where
  "isFile (File c) = True"
| "isFile _ = False"

definition readFileSync :: "file_system \<Rightarrow> string \<Rightarrow> error + string" where
  "readFileSync fs p =
     (case map_of fs p of
        None \<Rightarrow> Inl (ENOENT p)
      | Some (File c) \<Rightarrow> Inr c
      | Some Directory \<Rightarrow> Inl (EISDIR p)
      | Some (Other c) \<Rightarrow> Inr c)"

fun fs_put :: "string \<Rightarrow> fs_entry \<Rightarrow> file_system \<Rightarrow> file_system" where
  "fs_put p e [] = [(p, e)]"
| "fs_put p e ((q, x) # r) = (if q = p then (p, e) # r else (q, x) # fs_put p e r)"

definition writeFileSync :: "file_system \<Rightarrow> string \<Rightarrow> string \<Rightarrow> error + file_system" where
  "writeFileSync fs p content =
     (case map_of fs p of
        Some Directory \<Rightarrow> Inl (EISDIR p)
      | Some (Other c) \<Rightarrow> Inr fs
      | _ \<Rightarrow> Inr (fs_put p (File content) fs))"

text \<open>\<open>fs.mkdirSync(p, {recursive: true})\<close>.\<close>

definition mkdirSync :: "file_system \<Rightarrow> string \<Rightarrow> error + file_system" where
  "mkdirSync fs p =
     (case map_of fs p of
        None \<Rightarrow> Inr (fs_put p Directory fs)
      | Some Directory \<Rightarrow> Inr fs
      | Some _ \<Rightarrow> Inl (EEXIST p))"

text \<open>\<open>glob.sync(pattern, {ignore})\<close>: the listed paths the pattern matches and no ignore
  pattern matches, in the order of the listing.\<close>

definition globSync :: "environment \<Rightarrow> file_system \<Rightarrow> string \<Rightarrow> string list \<Rightarrow> string list" where
  "globSync env fs pattern ignore =
     filter (\<lambda>p. minimatch env pattern p \<and> \<not> list_ex (\<lambda>i. minimatch env i p) ignore) (map fst fs)"

section \<open>Numbers of the statistics\<close>

text \<open>
  A JavaScript number is a double. The sizes are sums of lengths, integers that a double holds
  exactly. The quotient and the difference of the ratio are computed in doubles: each is the
  exact result rounded to the nearest double, by the rounding \<open>rnd\<close> handed in, and a
  division by zero yields not-a-number or an infinity.
\<close>

datatype js_number = Finite rat | NaN | PosInfinity | NegInfinity

definition js_div :: "(rat \<Rightarrow> rat) \<Rightarrow> nat \<Rightarrow> nat \<Rightarrow> js_number" where
  "js_div rnd a b =
     (if b = 0 then (if a = 0 then NaN else PosInfinity)
      else Finite (rnd (of_nat a / of_nat b)))"

fun js_one_minus :: "(rat \<Rightarrow> rat) \<Rightarrow> js_number \<Rightarrow> js_number" where
  "js_one_minus rnd (Finite q) = Finite (rnd (1 - q))"
| "js_one_minus rnd NaN = NaN"
| "js_one_minus rnd PosInfinity = NegInfinity"
| "js_one_minus rnd NegInfinity = PosInfinity"

section \<open>Compressing one file\<close>

record FileResult =
  originalContent :: string
  transformedContent :: string
  sourceMap :: "string option"
  originalPath :: string

record Stats =
  originalSize :: nat
  compressedSize :: nat
  compressionRatio :: js_number

record CompressResult =
  outputFiles :: "string list"
  sourceMapFiles :: "string list option"
  stats :: Stats

text \<open>
  \<open>createTransformer\<close> receives the position-map builder, which the visitor could change; it is
  threaded through and returned.
\<close>

definition createTransformer ::
  "CompressOptions \<Rightarrow> SourceMapGenerator \<Rightarrow> node \<Rightarrow> node \<times> SourceMapGenerator" where
  "createTransformer options sourceMapGenerator sourceFile =
     (visitor options None sourceFile, sourceMapGenerator)"

definition printedTokens :: "node \<Rightarrow> CompressOptions \<Rightarrow> token list" where
  "printedTokens sourceFile options =
     emitNode (level options \<noteq> NONE) (visitor options None sourceFile)"

definition transformSourceFile ::
  "node \<Rightarrow> CompressOptions \<Rightarrow> SourceMapGenerator \<Rightarrow> string \<times> SourceMapGenerator" where
  "transformSourceFile sourceFile options sourceMapGenerator =
     (case createTransformer options sourceMapGenerator sourceFile of
        (transformed, generator) \<Rightarrow> (printFile (level options \<noteq> NONE) transformed, generator))"

text \<open>
  The progress line \<open>compressFile\<close> logs first only writes to the console and is left out, and
  with it the index and the total that only it reads; so are the \<open>info\<close> lines of
  \<open>compressFiles\<close>.
\<close>

definition compressFile ::
  "environment \<Rightarrow> file_system \<Rightarrow> string \<Rightarrow> CompressOptions \<Rightarrow> error + FileResult" where
  "compressFile env fs filePath options =
     (case readFileSync fs filePath of
        Inl e \<Rightarrow> Inl e
      | Inr sourceCode \<Rightarrow>
          (case transformSourceFile (rootNode (createSourceFile env filePath sourceCode)) options
                  (newSourceMapGenerator (basename filePath)) of
             (transformed, generator) \<Rightarrow>
               Inr \<lparr>originalContent = sourceCode,
                    transformedContent = transformed,
                    sourceMap = (if generateSourceMaps options = Some True
                                 then Some (sourceMapToString env generator) else None),
                    originalPath = filePath\<rparr>))"

section \<open>Resolving the input paths\<close>

text \<open>
  \<open>resolveInputFiles\<close> is a \<open>forEach\<close> over the input paths that grows the list \<open>files\<close>;
  \<open>resolveLoop\<close> is that loop, and \<open>statSync\<close> throwing ends it.
\<close>

fun resolveLoop ::
  "environment \<Rightarrow> file_system \<Rightarrow> string list option \<Rightarrow> string list \<Rightarrow> string list
     \<Rightarrow> error + string list" where
  "resolveLoop env fs exclude files [] = Inr files"
| "resolveLoop env fs exclude files (inputPath # rest) =
     (case statSync fs inputPath of
        Inl e \<Rightarrow> Inl e
      | Inr entry \<Rightarrow>
          if isDirectory entry then
            resolveLoop env fs exclude
              (files @ globSync env fs (inputPath @ ''/**/*.ts'')
                         (case exclude of None \<Rightarrow> [] | Some ps \<Rightarrow> ps)) rest
          else if isFile entry \<and> extname inputPath = ''.ts'' then
            resolveLoop env fs exclude (files @ [inputPath]) rest
          else resolveLoop env fs exclude files rest)"

definition resolveInputFiles ::
  "environment \<Rightarrow> file_system \<Rightarrow> string list \<Rightarrow> string list option \<Rightarrow> error + string list" where
  "resolveInputFiles env fs inputPaths exclude =
     resolveLoop env fs exclude [] inputPaths"

section \<open>Assembling the output\<close>

text \<open>\<open>.filter(Boolean)\<close> on the source maps: the defined, non-empty ones.\<close>

fun truthy :: "string option list \<Rightarrow> string list" where
  "truthy [] = []"
| "truthy (None # r) = truthy r"
| "truthy (Some s # r) = (if s = [] then truthy r else s # truthy r)"

definition writeSingle ::
  "CompressOptions \<Rightarrow> string \<Rightarrow> FileResult list \<Rightarrow> file_system
     \<Rightarrow> error + (string list \<times> string list \<times> file_system)" where
  "writeSingle options outputDir transformedFiles fs =
     (let combinedContent = join [CHR 0x0A] (map transformedContent transformedFiles);
          outputPath = path_join outputDir ''compressed.ts''
      in case writeFileSync fs outputPath combinedContent of
           Inl e \<Rightarrow> Inl e
         | Inr fs1 \<Rightarrow>
             if generateSourceMaps options = Some True then
               (let sourceMapPath = outputPath @ ''.map''
                in case writeFileSync fs1 sourceMapPath
                          (join [CHR 0x0A] (truthy (map sourceMap transformedFiles))) of
                     Inl e \<Rightarrow> Inl e
                   | Inr fs2 \<Rightarrow> Inr ([outputPath], [sourceMapPath], fs2))
             else Inr ([outputPath], [], fs1))"

text \<open>The \<open>forEach\<close> of the per-file format, with its index and the two lists it pushes to.\<close>

fun writeEach ::
  "CompressOptions \<Rightarrow> string \<Rightarrow> nat \<Rightarrow> FileResult list \<Rightarrow> string list \<times> string list \<times> file_system
     \<Rightarrow> error + (string list \<times> string list \<times> file_system)" where
  "writeEach options outputDir index [] st = Inr st"
| "writeEach options outputDir index (r # rest) (outs, maps, fs) =
     (let outputPath = path_join outputDir
            (basename (if originalPath r \<noteq> [] then originalPath r
                       else ''compressed_'' @ decimal index @ ''.ts''))
      in case writeFileSync fs outputPath (transformedContent r) of
           Inl e \<Rightarrow> Inl e
         | Inr fs1 \<Rightarrow>
             (case (if generateSourceMaps options = Some True then sourceMap r else None) of
                None \<Rightarrow> writeEach options outputDir (Suc index) rest (outs @ [outputPath], maps, fs1)
              | Some m \<Rightarrow>
                  if m = [] then
                    writeEach options outputDir (Suc index) rest (outs @ [outputPath], maps, fs1)
                  else
                    (case writeFileSync fs1 (outputPath @ ''.map'') m of
                       Inl e \<Rightarrow> Inl e
                     | Inr fs2 \<Rightarrow>
                         writeEach options outputDir (Suc index) rest
                           (outs @ [outputPath], maps @ [outputPath @ ''.map''], fs2))))"

definition generateOutput ::
  "environment \<Rightarrow> file_system \<Rightarrow> FileResult list \<Rightarrow> CompressOptions
     \<Rightarrow> error + (CompressResult \<times> file_system)" where
  "generateOutput env fs transformedFiles options =
     (let totalOriginalSize =
            foldl (\<lambda>sum r. sum + length (originalContent r)) 0 transformedFiles;
          totalCompressedSize =
            foldl (\<lambda>sum r. sum + length (transformedContent r)) 0 transformedFiles;
          outputDir = path_join (cwd env) ''dist''
      in case mkdirSync fs outputDir of
           Inl e \<Rightarrow> Inl e
         | Inr fs1 \<Rightarrow>
             (case (if outputFormat options = Single
                    then writeSingle options outputDir transformedFiles fs1
                    else writeEach options outputDir 0 transformedFiles ([], [], fs1)) of
                Inl e \<Rightarrow> Inl e
              | Inr (outs, maps, fs2) \<Rightarrow>
                  Inr (\<lparr>outputFiles = outs,
                        sourceMapFiles = (if generateSourceMaps options = Some True
                                          then Some maps else None),
                        stats = \<lparr>originalSize = totalOriginalSize,
                                 compressedSize = totalCompressedSize,
                                 compressionRatio =
                                   js_one_minus (toDouble env)
                                     (js_div (toDouble env) totalCompressedSize
                                        totalOriginalSize)\<rparr>\<rparr>,
                       fs2)))"

section \<open>The batch\<close>

text \<open>\<open>inputFiles.map(file => this.compressFile(file, ...))\<close>: the first exception ends the map.\<close>

fun compressEach ::
  "environment \<Rightarrow> file_system \<Rightarrow> CompressOptions \<Rightarrow> string list \<Rightarrow> error + FileResult list" where
  "compressEach env fs options [] = Inr []"
| "compressEach env fs options (f # rest) =
     (case compressFile env fs f options of
        Inl e \<Rightarrow> Inl e
      | Inr r \<Rightarrow>
          (case compressEach env fs options rest of
             Inl e \<Rightarrow> Inl e
           | Inr rs \<Rightarrow> Inr (r # rs)))"

definition compressFiles ::
  "environment \<Rightarrow> file_system \<Rightarrow> string list \<Rightarrow> CompressOptions
     \<Rightarrow> error + (CompressResult \<times> file_system)" where
  "compressFiles env fs inputPaths options =
     (case resolveInputFiles env fs inputPaths (excludePatterns options) of
        Inl e \<Rightarrow> Inl e
      | Inr inputFiles \<Rightarrow>
          (case compressEach env fs options inputFiles of
             Inl e \<Rightarrow> Inl e
           | Inr transformedFiles \<Rightarrow> generateOutput env fs transformedFiles options))"

section \<open>Example inputs\<close>

text \<open>
  Concrete trees, as the parser builds them for the quoted source texts, and a concrete
  environment to run the batch in. The example matcher understands literal segments, \<open>*\<close>
  inside a segment and \<open>**\<close> for any number of segments; as in glob, a wildcard does not match
  a leading dot.
\<close>

definition tok :: "string \<Rightarrow> node" where
  "tok s = Node Token s [] [] []"

definition ident :: "string \<Rightarrow> node" where
  "ident s = Node Identifier s [] [] []"

definition quoted :: "string \<Rightarrow> string" where
  "quoted s = CHR 0x27 # s @ [CHR 0x27]"

text \<open>\<^verbatim>\<open>const longVariableName = 'Hello World'; // comment\<close>\<close>

definition scenarioText :: string where
  "scenarioText = ''const longVariableName = '' @ quoted ''Hello World'' @ ''; // comment''"

definition scenarioTree :: node where
  "scenarioTree =
     Node SourceFile [] [] []
       [Node VariableStatement [] [] [''// comment'']
          [Node VariableDeclarationList [] [] []
             [tok ''const'',
              Node VariableDeclaration [] [] []
                [ident ''longVariableName'', tok ''='',
                 Node StringLiteral (quoted ''Hello World'') [] [] []]],
           tok '';'']]"

text \<open>\<^verbatim>\<open>/** The sum. */ function add(first) { return first; }\<close>\<close>

definition docTree :: node where
  "docTree =
     Node SourceFile [] [] []
       [Node FunctionDeclaration [] [''/** The sum. */''] []
          [tok ''function'', ident ''add'', tok ''('',
           Node Parameter [] [] [] [ident ''first''], tok '')'',
           Node Block [] [] []
             [tok ''{'', Node ReturnStatement [] [] [] [tok ''return'', ident ''first'', tok '';''],
              tok ''}'']]]"

text \<open>\<^verbatim>\<open>export const total = count;\<close>\<close>

definition exportTree :: node where
  "exportTree =
     Node SourceFile [] [] []
       [Node VariableStatement [] [] []
          [tok ''export'',
           Node VariableDeclarationList [] [] []
             [tok ''const'',
              Node VariableDeclaration [] [] [] [ident ''total'', tok ''='', ident ''count'']],
           tok '';'']]"

text \<open>\<^verbatim>\<open>import { helper } from './lib';
function scale(factor) { const result = { width: factor }; return result; }
export { scale };\<close>\<close>

definition renamingTree :: node where
  "renamingTree =
     Node SourceFile [] [] []
       [Node ImportDeclaration [] [] []
          [tok ''import'',
           Node ImportClause [] [] []
             [Node NamedImports [] [] []
                [tok ''{'', Node ImportSpecifier [] [] [] [ident ''helper''], tok ''}'']],
           tok ''from'', Node StringLiteral (quoted ''./lib'') [] [] [], tok '';''],
        Node FunctionDeclaration [] [] []
          [tok ''function'', ident ''scale'', tok ''('',
           Node Parameter [] [] [] [ident ''factor''], tok '')'',
           Node Block [] [] []
             [tok ''{'',
              Node VariableStatement [] [] []
                [Node VariableDeclarationList [] [] []
                   [tok ''const'',
                    Node VariableDeclaration [] [] []
                      [ident ''result'', tok ''='',
                       Node ObjectLiteralExpression [] [] []
                         [tok ''{'',
                          Node PropertyAssignment [] [] []
                            [ident ''width'', tok '':'', ident ''factor''],
                          tok ''}'']]],
                 tok '';''],
              Node ReturnStatement [] [] [] [tok ''return'', ident ''result'', tok '';''],
              tok ''}'']],
        Node ExportDeclaration [] [] []
          [tok ''export'',
           Node NamedExports [] [] []
             [tok ''{'', Node ExportSpecifier [] [] [] [ident ''scale''], tok ''}''],
           tok '';'']]"

text \<open>\<^verbatim>\<open>const x = ;\<close> is not valid source; the parser repairs it with a missing expression
  and reports it.\<close>

definition brokenText :: string where
  "brokenText = ''const x = ;''"

definition brokenTree :: node where
  "brokenTree =
     Node SourceFile [] [] []
       [Node VariableStatement [] [] []
          [Node VariableDeclarationList [] [] []
             [tok ''const'',
              Node VariableDeclaration [] [] [] [ident ''x'', tok ''='', ident []]],
           tok '';'']]"

definition exampleParser :: "string \<Rightarrow> string \<Rightarrow> ParsedSourceFile" where
  "exampleParser fileName sourceText =
     (if sourceText = scenarioText then \<lparr>rootNode = scenarioTree, parseDiagnostics = []\<rparr>
      else if sourceText = brokenText
        then \<lparr>rootNode = brokenTree, parseDiagnostics = [''Expression expected.'']\<rparr>
      else \<lparr>rootNode = Node SourceFile [] [] [] [], parseDiagnostics = []\<rparr>)"

fun wild :: "string \<Rightarrow> string \<Rightarrow> bool" where
  "wild [] s = (s = [])"
| "wild (c # cs) [] = (c = CHR ''*'' \<and> wild cs [])"
| "wild (c # cs) (x # s) =
     (if c = CHR ''*'' then wild cs (x # s) \<or> wild (c # cs) s else c = x \<and> wild cs s)"

definition matchSegment :: "string \<Rightarrow> string \<Rightarrow> bool" where
  "matchSegment p s = (if take 1 s = ''.'' then take 1 p = ''.'' \<and> wild p s else wild p s)"

fun matchSegments :: "string list \<Rightarrow> string list \<Rightarrow> bool" where
  "matchSegments [] ss = (ss = [])"
| "matchSegments (p # ps) [] = (p = ''**'' \<and> matchSegments ps [])"
| "matchSegments (p # ps) (s # ss) =
     (if p = ''**'' then matchSegments ps (s # ss) \<or> (take 1 s \<noteq> ''.'' \<and> matchSegments (p # ps) ss)
      else matchSegment p s \<and> matchSegments ps ss)"

definition exampleMatch :: "string \<Rightarrow> string \<Rightarrow> bool" where
  "exampleMatch pattern path = matchSegments (split CHR ''/'' pattern) (split CHR ''/'' path)"

definition exampleToString :: "SourceMapGenerator \<Rightarrow> string" where
  "exampleToString g = ''{file:'' @ file_name g @ '',mappings:'' @ decimal (length (mappings g)) @ ''}''"

text \<open>
  The rounding of the example environment is the rounding of IEEE 754 doubles, to the nearest
  number with a mantissa of 53 bits, a tie going to the even mantissa; numbers too large or
  too small for the normal range of a double do not occur among ratios of sizes and are not
  treated apart.
\<close>

function bitLength :: "int \<Rightarrow> int" where
  "bitLength n = (if n \<le> 0 then 0 else 1 + bitLength (n div 2))"
  by pat_completeness auto
termination
  by (relation "measure nat") auto

declare bitLength.simps [simp del]

definition pow2 :: "int \<Rightarrow> rat" where
  "pow2 e = (if 0 \<le> e then 2 ^ nat e else 1 / 2 ^ nat (- e))"

text \<open>For a positive \<open>q\<close>, the exponent \<open>k\<close> with \<open>pow2 k \<le> q < pow2 (k + 1)\<close>.\<close>

definition floorLog2 :: "rat \<Rightarrow> int" where
  "floorLog2 q =
     (case quotient_of q of
        (n, d) \<Rightarrow> let k = bitLength n - bitLength d
                  in if pow2 k \<le> q then k else k - 1)"

definition roundHalfEven :: "rat \<Rightarrow> int" where
  "roundHalfEven m =
     (let f = \<lfloor>m\<rfloor>; r = m - of_int f
      in if r < 1 / 2 then f else if 1 / 2 < r then f + 1 else if even f then f else f + 1)"

definition roundToDouble :: "rat \<Rightarrow> rat" where
  "roundToDouble q =
     (if q = 0 then 0
      else let e = floorLog2 \<bar>q\<bar> - 52
           in sgn q * of_int (roundHalfEven (\<bar>q\<bar> / pow2 e)) * pow2 e)"

definition exampleEnv :: environment where
  "exampleEnv = \<lparr>cwd = ''/work'', minimatch = exampleMatch,
                  createSourceFile = exampleParser, sourceMapToString = exampleToString,
                  toDouble = roundToDouble\<rparr>"

definition exampleFs :: file_system where
  "exampleFs =
     [(''/work'', Directory),
      (''/work/src'', Directory),
      (''/work/src/include.ts'', File scenarioText),
      (''/work/src/exclude.ts'', File brokenText),
      (''/work/src/notes.txt'', File ''plain text'')]"

definition exampleOptions :: "CompressionLevel \<Rightarrow> OutputFormat \<Rightarrow> bool option \<Rightarrow> CompressOptions" where
  "exampleOptions lvl fmt maps =
     \<lparr>level = lvl, outputFormat = fmt, generateSourceMaps = maps, customNamePatterns = None,
      excludePatterns = None, input = None\<rparr>"

text \<open>A second file system, in which the directory \<open>/work/lib\<close> holds a directory whose name
  ends in \<open>.ts\<close>.\<close>

definition brokenFs :: file_system where
  "brokenFs = [(''/work'', Directory), (''/work/lib'', Directory), (''/work/lib/types.ts'', Directory)]"

text \<open>What \<open>compressFiles\<close> returns to its caller, without the file system it leaves.\<close>

definition returned :: "error + (CompressResult \<times> file_system) \<Rightarrow> error + CompressResult" where
  "returned x = map_sum id fst x"

text \<open>A base name that names a directory entry: not empty, no separator, not \<open>.\<close> or \<open>..\<close>.\<close>

definition plainName :: "string \<Rightarrow> bool" where
  "plainName b = (b \<noteq> [] \<and> CHR ''/'' \<notin> set b \<and> b \<noteq> ''.'' \<and> b \<noteq> ''..'')"

section \<open>Properties\<close>

subsection \<open>Facts about the rewriter\<close>

lemma transformSourceFile_tokens:
  "fst (transformSourceFile sourceFile options generator)
   = join '' '' (map tokenText (printedTokens sourceFile options))"
  by (simp add: transformSourceFile_def createTransformer_def printFile_def printedTokens_def)

lemma aggressive_replace:
  "isIdentifier n \<Longrightarrow> isVariableDeclaration parent \<Longrightarrow>
   aggressiveCompression parent n = createIdentifier (shortenName (node_text n))"
  by (subst aggressiveCompression.simps) simp

lemma aggressive_descend:
  "\<not> (isIdentifier n \<and> isVariableDeclaration parent) \<Longrightarrow>
   aggressiveCompression parent n = visitEachChild n (aggressiveCompression (Some (kind n)))"
  by (subst aggressiveCompression.simps) auto

lemma visitEachChild_sel [simp]:
  "kind (visitEachChild n f) = kind n"
  "node_text (visitEachChild n f) = node_text n"
  "children (visitEachChild n f) = map f (children n)"
  "isIdentifier (visitEachChild n f) = isIdentifier n"
  by (simp_all add: visitEachChild_def isIdentifier_def)

lemma createIdentifier_sel [simp]:
  "kind (createIdentifier s) = Identifier"
  "node_text (createIdentifier s) = s"
  "children (createIdentifier s) = []"
  "isIdentifier (createIdentifier s)"
  by (simp_all add: createIdentifier_def isIdentifier_def)

lemma isIdentifier_aggressive: "isIdentifier (aggressiveCompression parent n) = isIdentifier n"
  by (cases "isIdentifier n \<and> isVariableDeclaration parent")
     (auto simp: aggressive_replace aggressive_descend)

lemma otherIdentifiers_aggressive:
  "otherIdentifiers parent (aggressiveCompression parent n) = otherIdentifiers parent n"
proof (induction parent n rule: aggressiveCompression.induct)
  case (1 parent n)
  show ?case
  proof (cases "isIdentifier n \<and> isVariableDeclaration parent")
    case True
    then show ?thesis
      by (simp add: otherIdentifiers.simps [of parent] isIdentifier_aggressive)
  next
    case False
    have "map (otherIdentifiers (Some (kind n)) \<circ> aggressiveCompression (Some (kind n))) (children n)
          = map (otherIdentifiers (Some (kind n))) (children n)"
      using 1 False by simp
    then have ih:
      "concat (map (otherIdentifiers (Some (kind n)) \<circ> aggressiveCompression (Some (kind n)))
                 (children n))
       = concat (map (otherIdentifiers (Some (kind n))) (children n))"
      by (rule arg_cong)
    have "otherIdentifiers parent (aggressiveCompression parent n)
          = otherIdentifiers parent (visitEachChild n (aggressiveCompression (Some (kind n))))"
      using False by (simp add: aggressive_descend)
    also have "\<dots> = otherIdentifiers parent n"
      using False by (simp add: otherIdentifiers.simps [of parent] ih)
    finally show ?thesis .
  qed
qed

lemma declarationNames_aggressive:
  "declarationNames parent (aggressiveCompression parent n)
   = map shortenName (declarationNames parent n)"
proof (induction parent n rule: aggressiveCompression.induct)
  case (1 parent n)
  define own where "own m =
     (if kind m = VariableDeclaration
      then (case children m of [] \<Rightarrow> [] | c # cs \<Rightarrow> if isIdentifier c then [node_text c] else [])
      else [])" for m
  have unfold: "declarationNames p m =
      (if isIdentifier m \<and> isVariableDeclaration p then []
       else own m @ concat (map (declarationNames (Some (kind m))) (children m)))" for p m
    by (subst declarationNames.simps) (simp add: own_def)
  show ?case
  proof (cases "isIdentifier n \<and> isVariableDeclaration parent")
    case True
    then show ?thesis
      by (simp add: unfold [of parent] isIdentifier_aggressive)
  next
    case False
    then have no: "(isIdentifier n \<and> isVariableDeclaration parent) = False"
      by simp
    have "map (declarationNames (Some (kind n)) \<circ> aggressiveCompression (Some (kind n))) (children n)
          = map (map shortenName \<circ> declarationNames (Some (kind n))) (children n)"
      using 1 False by simp
    then have ih:
      "concat (map (declarationNames (Some (kind n)) \<circ> aggressiveCompression (Some (kind n)))
                 (children n))
       = concat (map (map shortenName \<circ> declarationNames (Some (kind n))) (children n))"
      by (rule arg_cong)
    have name: "own (visitEachChild n (aggressiveCompression (Some (kind n)))) = map shortenName (own n)"
      by (cases "children n")
         (auto simp: own_def isIdentifier_aggressive aggressive_replace isVariableDeclaration_def)
    have "declarationNames parent (aggressiveCompression parent n)
          = declarationNames parent (visitEachChild n (aggressiveCompression (Some (kind n))))"
      using False by (simp add: aggressive_descend)
    also have "\<dots> = map shortenName (declarationNames parent n)"
      by (simp add: unfold [of parent] no map_concat ih name)
    finally show ?thesis .
  qed
qed

subsection \<open>The unused option\<close>

lemma visitor_custom [simp]:
  "visitor (options\<lparr>customNamePatterns := x\<rparr>) parent n = visitor options parent n"
proof (induction options parent n rule: visitor.induct)
  case (1 options parent n)
  show ?case
  proof (cases "level options")
    case NONE
    with 1 show ?thesis
      by (simp add: visitor.simps [of _ parent n] visitEachChild_def)
  qed (simp_all add: visitor.simps [of _ parent n])
qed

lemma transformSourceFile_custom [simp]:
  "transformSourceFile sf (options\<lparr>customNamePatterns := x\<rparr>) g = transformSourceFile sf options g"
  by (simp add: transformSourceFile_def createTransformer_def)

lemma compressFile_custom [simp]:
  "compressFile env fs f (options\<lparr>customNamePatterns := x\<rparr>) = compressFile env fs f options"
  by (simp add: compressFile_def split: sum.splits prod.splits)

lemma compressEach_custom [simp]:
  "compressEach env fs (options\<lparr>customNamePatterns := x\<rparr>) files = compressEach env fs options files"
  by (induction files) (simp_all split: sum.splits)

lemma writeEach_custom [simp]:
  "writeEach (options\<lparr>customNamePatterns := x\<rparr>) dir i rs st = writeEach options dir i rs st"
proof (induction rs arbitrary: i st)
  case Nil
  then show ?case by simp
next
  case (Cons r rs)
  obtain outs maps fs where st: "st = (outs, maps, fs)"
    by (cases st) auto
  show ?case
    unfolding st by (simp add: Cons Let_def split: sum.splits option.splits)
qed

lemma generateOutput_custom [simp]:
  "generateOutput env fs rs (options\<lparr>customNamePatterns := x\<rparr>) = generateOutput env fs rs options"
  by (simp add: generateOutput_def writeSingle_def Let_def split: sum.splits prod.splits)

text \<open>
  C10. Two option records that differ only in \<open>customNamePatterns\<close> give the same batch: the
  same result record (output files, map files, statistics) and the same file system afterwards,
  hence the same written texts and maps, or the same error.
\<close>

theorem customNamePatterns_ignored:
  "compressFiles env fs inputPaths (options\<lparr>customNamePatterns := a\<rparr>)
   = compressFiles env fs inputPaths (options\<lparr>customNamePatterns := b\<rparr>)"
  by (simp add: compressFiles_def split: sum.splits)

subsection \<open>Comments\<close>

text \<open>
  C1 holds of what the code sets out to do and fails on what it does. The documentation
  comment attached to the function declaration of \<open>docTree\<close> is still on the tree that the
  MINIMAL rewriter returns, and a printer that keeps comments prints it; but
  \<open>transformSourceFile\<close> creates the printer with \<open>removeComments\<close> set for every level
  but NONE, so the comment is printed at NONE and is missing from the output at MINIMAL and at
  AGGRESSIVE.
\<close>

theorem doc_comment_not_retained:
  "kind (hd (children docTree)) = FunctionDeclaration
   \<and> leadingComments (hd (children docTree)) = [''/** The sum. */'']
   \<and> isJSDocLikeText ''/** The sum. */''
   \<and> leadingComments (hd (children (minimalCompression docTree))) = [''/** The sum. */'']
   \<and> Comment ''/** The sum. */'' \<in> set (emitNode False (minimalCompression docTree))
   \<and> Comment ''/** The sum. */'' \<in> set (printedTokens docTree (exampleOptions NONE Single None))
   \<and> Comment ''/** The sum. */'' \<notin> set (printedTokens docTree (exampleOptions MINIMAL Single None))
   \<and> Comment ''/** The sum. */'' \<notin> set (printedTokens docTree (exampleOptions AGGRESSIVE Single None))
   \<and> fst (transformSourceFile docTree (exampleOptions MINIMAL Single None)
            (newSourceMapGenerator ''add.ts''))
       = ''function add ( first ) { return first ; }''"
  by code_simp

subsection \<open>Renaming\<close>

text \<open>
  C5, as the code has it. At AGGRESSIVE the name of every variable declaration is replaced by
  the generated name, an underscore followed by the decimal length of the original name, and
  every identifier whose parent is not a variable declaration (a parameter name, a property
  name, the name of an import or export specifier) is left as it is, in the same order.
\<close>

theorem aggressive_renaming:
  "level options = AGGRESSIVE \<Longrightarrow>
   declarationNames None (visitor options None sourceFile)
     = map (\<lambda>name. CHR ''_'' # decimal (length name)) (declarationNames None sourceFile)
   \<and> otherIdentifiers None (visitor options None sourceFile) = otherIdentifiers None sourceFile"
  by (simp add: visitor.simps [of options] declarationNames_aggressive otherIdentifiers_aggressive
        shortenName_def [abs_def])

theorem aggressive_renaming_witness:
  "level (exampleOptions AGGRESSIVE Single None) = AGGRESSIVE
   \<and> declarationNames None (visitor (exampleOptions AGGRESSIVE Single None) None renamingTree)
       = [''_6'']
   \<and> otherIdentifiers None (visitor (exampleOptions AGGRESSIVE Single None) None renamingTree)
       = [''helper'', ''scale'', ''factor'', ''width'', ''factor'', ''result'', ''scale'']"
proof -
  have h: "level (exampleOptions AGGRESSIVE Single None) = AGGRESSIVE"
    by (simp add: exampleOptions_def)
  have names: "map (\<lambda>name. CHR ''_'' # decimal (length name)) (declarationNames None renamingTree)
               = [''_6'']"
    by code_simp
  have others: "otherIdentifiers None renamingTree
                = [''helper'', ''scale'', ''factor'', ''width'', ''factor'', ''result'', ''scale'']"
    by code_simp
  from aggressive_renaming [OF h, of renamingTree] names others h show ?thesis
    by simp
qed

text \<open>
  C5 as stated fails on \<^verbatim>\<open>export const total = count;\<close>: the only declaration name is
  \<open>total\<close>, an exported name, and it is replaced; \<open>count\<close>, which is no declaration name,
  is replaced as well.
\<close>

theorem exported_name_and_initializer_replaced:
  "declarationNames None exportTree = [''total'']
   \<and> printedTokens exportTree (exampleOptions NONE Single None)
       = [Code ''export'', Code ''const'', Code ''total'', Code ''='', Code ''count'', Code '';'']
   \<and> printedTokens exportTree (exampleOptions AGGRESSIVE Single None)
       = [Code ''export'', Code ''const'', Code ''_5'', Code ''='', Code ''_5'', Code '';'']"
  by code_simp

subsection \<open>The concrete scenario\<close>

text \<open>
  C2, as the code has it. The file content
  \<^verbatim>\<open>const longVariableName = 'Hello World'; // comment\<close> compressed at MINIMAL prints no
  comment token and keeps the identifier \<open>longVariableName\<close>; compressed at AGGRESSIVE it prints
  the generated name \<open>_16\<close> in its place, the name having 16 characters.
\<close>

theorem scenario_compression:
  "printedTokens scenarioTree (exampleOptions MINIMAL Single None) =
     [Code ''const'', Code ''longVariableName'', Code ''='', Code (quoted ''Hello World''), Code '';'']
   \<and> compressFile exampleEnv exampleFs ''/work/src/include.ts'' (exampleOptions MINIMAL Single None) =
     Inr \<lparr>originalContent = scenarioText,
          transformedContent = ''const longVariableName = '' @ quoted ''Hello World'' @ '' ;'',
          sourceMap = None, originalPath = ''/work/src/include.ts''\<rparr>
   \<and> printedTokens scenarioTree (exampleOptions AGGRESSIVE Single None) =
     [Code ''const'', Code ''_16'', Code ''='', Code (quoted ''Hello World''), Code '';'']
   \<and> compressFile exampleEnv exampleFs ''/work/src/include.ts'' (exampleOptions AGGRESSIVE Single None) =
     Inr \<lparr>originalContent = scenarioText,
          transformedContent = ''const _16 = '' @ quoted ''Hello World'' @ '' ;'',
          sourceMap = None, originalPath = ''/work/src/include.ts''\<rparr>"
  by code_simp

text \<open>
  C2 as stated fails: the generated name is not \<open>_17\<close>, and \<open>_17\<close> is no token of the
  AGGRESSIVE output.
\<close>

theorem scenario_name_is_not_17:
  "length ''longVariableName'' = 16
   \<and> shortenName ''longVariableName'' \<noteq> ''_17''
   \<and> Code ''_17'' \<notin> set (printedTokens scenarioTree (exampleOptions AGGRESSIVE Single None))"
  by code_simp

subsection \<open>Paths and the order of the outputs\<close>

lemma split_not_Nil [simp]: "split c s \<noteq> []"
  by (induction s) (auto split: list.splits)

lemma split_no_sep: "c \<notin> set s \<Longrightarrow> split c s = [s]"
  by (induction s) auto

lemma split_append: "split c (a @ c # b) = split c a @ split c b"
  by (induction a) (auto split: list.splits)

lemma join_snoc: "join sep (xs @ [b]) = (if xs = [] then b else join sep xs @ sep @ b)"
  by (induction sep xs rule: join.induct) auto

lemma normalizeStep_plain: "plainName b \<Longrightarrow> normalizeStep allow res b = res @ [b]"
  by (auto simp: normalizeStep_def plainName_def)

lemma basename_append:
  assumes "b \<noteq> []" "CHR ''/'' \<notin> set b" "y = [] \<or> last y = CHR ''/''"
  shows "basename (y @ b) = b"
proof -
  have nodrop: "dropWhile (\<lambda>c. c = CHR ''/'') (rev b @ rev y) = rev b @ rev y"
    using assms(1,2) by (cases b rule: rev_cases) auto
  have take: "takeWhile (\<lambda>c. c \<noteq> CHR ''/'') (rev b @ rev y) = rev b"
  proof -
    have "takeWhile (\<lambda>c. c \<noteq> CHR ''/'') (rev y) = []"
      using assms(3) by (cases y rule: rev_cases) auto
    moreover have "\<forall>x\<in>set (rev b). x \<noteq> CHR ''/''"
      using assms(2) by auto
    ultimately show ?thesis
      by (subst takeWhile_append2) auto
  qed
  show ?thesis
    by (simp add: basename_def nodrop take)
qed

lemma normalize_snoc:
  assumes "plainName b" "split CHR ''/'' joined = segs @ [b]" "joined \<noteq> []" "last joined \<noteq> CHR ''/''"
  shows "\<exists>y. normalize joined = y @ b \<and> (y = [] \<or> last y = CHR ''/'')"
proof -
  define allow where "allow = (hd joined \<noteq> CHR ''/'')"
  define res where "res = foldl (normalizeStep allow) [] segs"
  have p: "normalizeString joined allow = (if res = [] then b else join ''/'' res @ ''/'' @ b)"
    by (simp add: normalizeString_def assms(2) res_def normalizeStep_plain [OF assms(1)] join_snoc)
  have ne: "normalizeString joined allow \<noteq> []"
    using assms(1) by (auto simp: p plainName_def)
  have n: "normalize joined = (if hd joined = CHR ''/'' then ''/'' else []) @ normalizeString joined allow"
    using assms(3,4) ne by (simp add: normalize_def Let_def allow_def)
  show ?thesis
  proof (cases "res = []")
    case True
    then have "normalize joined = (if hd joined = CHR ''/'' then ''/'' else []) @ b"
      by (simp add: n p)
    then show ?thesis
      by (intro exI [of _ "if hd joined = CHR ''/'' then ''/'' else []"]) auto
  next
    case False
    then have "normalize joined = ((if hd joined = CHR ''/'' then ''/'' else []) @ join ''/'' res @ ''/'') @ b"
      by (simp add: n p)
    then show ?thesis
      by (intro exI [of _ "(if hd joined = CHR ''/'' then ''/'' else []) @ join ''/'' res @ ''/''"]) auto
  qed
qed

lemma basename_path_join:
  assumes "plainName b"
  shows "basename (path_join d b) = b"
proof -
  define joined where "joined = (if d = [] then b else d @ ''/'' @ b)"
  have b: "b \<noteq> []" "CHR ''/'' \<notin> set b"
    using assms by (auto simp: plainName_def)
  have ne: "joined \<noteq> []"
    using b by (simp add: joined_def)
  have "last b \<noteq> CHR ''/''"
    using b last_in_set [of b] by metis
  then have lst: "last joined \<noteq> CHR ''/''"
    using b by (simp add: joined_def)
  have sp: "\<exists>segs. split CHR ''/'' joined = segs @ [b]"
  proof (cases "d = []")
    case True
    then show ?thesis
      using b by (simp add: joined_def split_no_sep)
  next
    case False
    then have "split CHR ''/'' joined = split CHR ''/'' d @ [b]"
      using b by (simp add: joined_def split_append split_no_sep)
    then show ?thesis by blast
  qed
  then obtain segs where segs: "split CHR ''/'' joined = segs @ [b]" by blast
  from normalize_snoc [OF assms segs ne lst]
  obtain y where y: "normalize joined = y @ b" "y = [] \<or> last y = CHR ''/''" by blast
  have "path_join d b = normalize joined"
    using b ne by (auto simp: path_join_def joined_def Let_def)
  then show ?thesis
    using y b by (simp add: basename_append)
qed

lemma basename_no_slash: "CHR ''/'' \<notin> set (basename p)"
  by (auto simp: basename_def dest: set_takeWhileD)

lemma extname_plain: "extname p = ''.ts'' \<Longrightarrow> plainName (basename p)"
  using basename_no_slash [of p]
  by (auto simp: extname_def plainName_def Let_def split: if_splits)

lemma basename_idem: "plainName (basename p) \<Longrightarrow> basename (basename p) = basename p"
  using basename_append [of "basename p" "[]"] by (simp add: plainName_def)

lemma compressEach_paths:
  "compressEach env fs options files = Inr rs \<Longrightarrow> map originalPath rs = files"
proof (induction files arbitrary: rs)
  case Nil
  then show ?case by simp
next
  case (Cons f files)
  then show ?case
    by (auto simp: compressFile_def split: sum.splits prod.splits)
qed

lemma writeEach_outs:
  "writeEach options dir i rs (outs, maps, fs) = Inr (outs', maps', fs') \<Longrightarrow>
   length outs' = length outs + length rs
   \<and> ((\<forall>r\<in>set rs. originalPath r \<noteq> []) \<longrightarrow>
        outs' = outs @ map (\<lambda>r. path_join dir (basename (originalPath r))) rs)"
proof (induction rs arbitrary: i outs maps fs)
  case Nil
  then show ?case by simp
next
  case (Cons r rs)
  from Cons.prems show ?case
    by (auto simp: Let_def split: sum.splits option.splits if_splits dest!: Cons.IH)
qed

lemma foldl_add_length:
  "foldl (\<lambda>sum r. sum + length (f r)) a rs = a + sum_list (map (\<lambda>r. length (f r)) rs)"
  by (induction rs arbitrary: a) auto

lemma generateOutput_stats:
  assumes "generateOutput env fs rs options = Inr (res, fs')"
  shows "originalSize (stats res) = sum_list (map (\<lambda>r. length (originalContent r)) rs)"
    and "compressedSize (stats res) = sum_list (map (\<lambda>r. length (transformedContent r)) rs)"
    and "compressionRatio (stats res)
         = js_one_minus (toDouble env)
             (js_div (toDouble env) (compressedSize (stats res)) (originalSize (stats res)))"
  using assms
  by (auto simp: generateOutput_def Let_def foldl_add_length split: sum.splits prod.splits)

lemma generateOutput_multiple:
  assumes "generateOutput env fs rs options = Inr (res, fs')" "outputFormat options = Multiple"
  shows "length (outputFiles res) = length rs"
    and "(\<forall>r\<in>set rs. originalPath r \<noteq> []) \<Longrightarrow>
         outputFiles res = map (\<lambda>r. path_join (path_join (cwd env) ''dist'') (basename (originalPath r))) rs"
  using assms
  by (auto simp: generateOutput_def Let_def split: sum.splits prod.splits dest!: writeEach_outs)

lemma compressFiles_Inr:
  assumes "compressFiles env fs inputPaths options = Inr (res, fs')"
      and "resolveInputFiles env fs inputPaths (excludePatterns options) = Inr files"
  shows "\<exists>rs. compressEach env fs options files = Inr rs
            \<and> generateOutput env fs rs options = Inr (res, fs')"
  using assms by (auto simp: compressFiles_def split: sum.splits)

text \<open>
  C7. A batch that returns has compressed every resolved file: there is one per-file result for
  each of the \<open>N\<close> resolved files, in the order of the list. With the per-file output format
  the returned \<open>outputFiles\<close> has length \<open>N\<close>, and its entries have the base names of the
  resolved files, in order, the resolved files ending in \<open>.ts\<close>.
\<close>

theorem results_and_outputs_in_input_order:
  assumes "resolveInputFiles env fs inputPaths (excludePatterns options) = Inr files"
      and "compressFiles env fs inputPaths options = Inr (res, fs')"
  shows "(\<exists>rs. compressEach env fs options files = Inr rs \<and> length rs = length files
               \<and> map originalPath rs = files)
         \<and> (outputFormat options = Multiple \<longrightarrow>
              length (outputFiles res) = length files
              \<and> ((\<forall>f\<in>set files. extname f = ''.ts'') \<longrightarrow>
                   map basename (outputFiles res) = map basename files))"
proof -
  from compressFiles_Inr [OF assms(2,1)]
  obtain rs where rs: "compressEach env fs options files = Inr rs"
     and out: "generateOutput env fs rs options = Inr (res, fs')" by blast
  have paths: "map originalPath rs = files"
    using rs by (rule compressEach_paths)
  then have len: "length rs = length files"
    by (metis length_map)
  have names: "map basename (outputFiles res) = map basename files"
    if multiple: "outputFormat options = Multiple" and ts: "\<forall>f\<in>set files. extname f = ''.ts''"
  proof -
    have plain: "plainName (basename (originalPath r))" if "r \<in> set rs" for r
    proof -
      have "originalPath r \<in> set files"
        using that paths by (metis image_eqI set_map)
      then show ?thesis
        using ts by (simp add: extname_plain)
    qed
    have "basename [] = []"
      by (simp add: basename_def)
    with plain have "\<forall>r\<in>set rs. originalPath r \<noteq> []"
      by (metis plainName_def)
    then have "outputFiles res
               = map (\<lambda>r. path_join (path_join (cwd env) ''dist'') (basename (originalPath r))) rs"
      using generateOutput_multiple(2) [OF out multiple] by simp
    then have "map basename (outputFiles res) = map (\<lambda>r. basename (originalPath r)) rs"
      using plain by (simp add: basename_path_join)
    also have "\<dots> = map basename (map originalPath rs)"
      by simp
    finally show ?thesis
      by (simp only: paths)
  qed
  show ?thesis
    using rs len paths generateOutput_multiple(1) [OF out] names by auto
qed

theorem results_and_outputs_in_input_order_witness:
  "resolveInputFiles exampleEnv exampleFs [''/work/src'']
       (excludePatterns (exampleOptions MINIMAL Multiple None))
     = Inr [''/work/src/include.ts'', ''/work/src/exclude.ts'']
   \<and> outputFormat (exampleOptions MINIMAL Multiple None) = Multiple
   \<and> extname ''/work/src/include.ts'' = ''.ts'' \<and> extname ''/work/src/exclude.ts'' = ''.ts''
   \<and> (\<exists>res fs'. compressFiles exampleEnv exampleFs [''/work/src''] (exampleOptions MINIMAL Multiple None)
                     = Inr (res, fs')
          \<and> length (outputFiles res) = 2
          \<and> map basename (outputFiles res) = [''include.ts'', ''exclude.ts''])"
proof -
  let ?opts = "exampleOptions MINIMAL Multiple None"
  let ?run = "compressFiles exampleEnv exampleFs [''/work/src''] ?opts"
  have r: "resolveInputFiles exampleEnv exampleFs [''/work/src''] (excludePatterns ?opts)
           = Inr [''/work/src/include.ts'', ''/work/src/exclude.ts'']"
    by code_simp
  have c: "?run = Inr (fst (projr ?run), snd (projr ?run))"
    by code_simp
  have m: "outputFormat ?opts = Multiple"
    by (simp add: exampleOptions_def)
  have e: "extname ''/work/src/include.ts'' = ''.ts''" "extname ''/work/src/exclude.ts'' = ''.ts''"
    by code_simp+
  have b: "map basename [''/work/src/include.ts'', ''/work/src/exclude.ts'']
           = [''include.ts'', ''exclude.ts'']"
    by code_simp
  from results_and_outputs_in_input_order [OF r c] m e b
  have k: "length (outputFiles (fst (projr ?run))) = 2"
          "map basename (outputFiles (fst (projr ?run))) = [''include.ts'', ''exclude.ts'']"
    by simp_all
  have "\<exists>res fs'. ?run = Inr (res, fs') \<and> length (outputFiles res) = 2
          \<and> map basename (outputFiles res) = [''include.ts'', ''exclude.ts'']"
    by (rule exI [of _ "fst (projr ?run)"], rule exI [of _ "snd (projr ?run)"], intro conjI)
       (rule c, rule k(1), rule k(2))
  with r m e show ?thesis
    by (intro conjI)
qed

subsection \<open>Statistics\<close>

text \<open>
  C6. The sizes of the statistics are the sums of the lengths (the counts of code units, not of
  bytes) of the original and of the transformed texts of the per-file results; the ratio is one
  minus the quotient of the two sizes, as doubles compute it: the quotient rounded, and the
  difference rounded. With an original size of zero it is no ordinary number, and for a batch
  of no files it is not-a-number.
\<close>

theorem stats_are_sums_of_lengths:
  assumes "resolveInputFiles env fs inputPaths (excludePatterns options) = Inr files"
      and "compressFiles env fs inputPaths options = Inr (res, fs')"
  shows "(\<exists>rs. compressEach env fs options files = Inr rs
            \<and> originalSize (stats res) = sum_list (map (\<lambda>r. length (originalContent r)) rs)
            \<and> compressedSize (stats res) = sum_list (map (\<lambda>r. length (transformedContent r)) rs))
         \<and> compressionRatio (stats res)
             = js_one_minus (toDouble env)
                 (js_div (toDouble env) (compressedSize (stats res)) (originalSize (stats res)))
         \<and> (0 < originalSize (stats res) \<longrightarrow>
              compressionRatio (stats res)
              = Finite (toDouble env
                  (1 - toDouble env
                         (of_nat (compressedSize (stats res)) / of_nat (originalSize (stats res))))))
         \<and> (originalSize (stats res) = 0 \<longrightarrow> (\<forall>q. compressionRatio (stats res) \<noteq> Finite q))
         \<and> (files = [] \<longrightarrow> originalSize (stats res) = 0 \<and> compressionRatio (stats res) = NaN)"
proof -
  from compressFiles_Inr [OF assms(2,1)]
  obtain rs where rs: "compressEach env fs options files = Inr rs"
     and out: "generateOutput env fs rs options = Inr (res, fs')" by blast
  note st = generateOutput_stats [OF out]
  have empty: "rs = []" if "files = []"
    using rs that by simp
  show ?thesis
    using rs st empty by (auto simp: js_div_def)
qed

text \<open>
  The witness runs the empty batch and the batch of the directory \<open>/work/src\<close>; there the
  ratio is \<open>1 - 51 / 61\<close> in doubles, which JavaScript prints as \<open>0.16393442622950816\<close>.
\<close>

theorem stats_are_sums_of_lengths_witness:
  "(resolveInputFiles exampleEnv exampleFs [] (excludePatterns (exampleOptions MINIMAL Multiple None))
      = Inr []
    \<and> (\<exists>res fs'. compressFiles exampleEnv exampleFs [] (exampleOptions MINIMAL Multiple None)
                     = Inr (res, fs')
           \<and> originalSize (stats res) = 0 \<and> compressionRatio (stats res) = NaN))
   \<and> (resolveInputFiles exampleEnv exampleFs [''/work/src'']
           (excludePatterns (exampleOptions MINIMAL Multiple None))
        = Inr [''/work/src/include.ts'', ''/work/src/exclude.ts'']
      \<and> (\<exists>res fs'. compressFiles exampleEnv exampleFs [''/work/src'']
                       (exampleOptions MINIMAL Multiple None) = Inr (res, fs')
             \<and> originalSize (stats res) = 61 \<and> compressedSize (stats res) = 51
             \<and> compressionRatio (stats res)
                 = Finite (738295020880409 / 4503599627370496)))"
proof -
  let ?opts = "exampleOptions MINIMAL Multiple None"
  let ?none = "compressFiles exampleEnv exampleFs [] ?opts"
  let ?run = "compressFiles exampleEnv exampleFs [''/work/src''] ?opts"
  have r0: "resolveInputFiles exampleEnv exampleFs [] (excludePatterns ?opts) = Inr []"
    by code_simp
  have c0: "?none = Inr (fst (projr ?none), snd (projr ?none))"
    by code_simp
  from stats_are_sums_of_lengths [OF r0 c0]
  have k0: "originalSize (stats (fst (projr ?none))) = 0"
           "compressionRatio (stats (fst (projr ?none))) = NaN"
    by blast+
  have first: "\<exists>res fs'. ?none = Inr (res, fs')
                 \<and> originalSize (stats res) = 0 \<and> compressionRatio (stats res) = NaN"
    by (rule exI [of _ "fst (projr ?none)"], rule exI [of _ "snd (projr ?none)"], intro conjI)
       (rule c0, rule k0(1), rule k0(2))
  have r: "resolveInputFiles exampleEnv exampleFs [''/work/src''] (excludePatterns ?opts)
           = Inr [''/work/src/include.ts'', ''/work/src/exclude.ts'']"
    by code_simp
  have c: "?run = Inr (fst (projr ?run), snd (projr ?run))"
    by code_simp
  have sizes: "originalSize (stats (fst (projr ?run))) = 61"
              "compressedSize (stats (fst (projr ?run))) = 51"
    by code_simp+
  have rounded: "toDouble exampleEnv (1 - toDouble exampleEnv (of_nat 51 / of_nat 61))
                 = 738295020880409 / 4503599627370496"
    by code_simp
  from stats_are_sums_of_lengths [OF r c]
  have "0 < originalSize (stats (fst (projr ?run))) \<longrightarrow>
        compressionRatio (stats (fst (projr ?run)))
        = Finite (toDouble exampleEnv
            (1 - toDouble exampleEnv
                   (of_nat (compressedSize (stats (fst (projr ?run))))
                    / of_nat (originalSize (stats (fst (projr ?run)))))))"
    by blast
  then have "compressionRatio (stats (fst (projr ?run)))
        = Finite (toDouble exampleEnv (1 - toDouble exampleEnv (of_nat 51 / of_nat 61)))"
    by (simp only: sizes)
  then have k: "compressionRatio (stats (fst (projr ?run)))
                = Finite (738295020880409 / 4503599627370496)"
    by (simp only: rounded)
  have second: "\<exists>res fs'. ?run = Inr (res, fs')
                  \<and> originalSize (stats res) = 61 \<and> compressedSize (stats res) = 51
                  \<and> compressionRatio (stats res) = Finite (738295020880409 / 4503599627370496)"
    by (rule exI [of _ "fst (projr ?run)"], rule exI [of _ "snd (projr ?run)"], intro conjI)
       (rule c, rule sizes(1), rule sizes(2), rule k)
  from r0 first r second show ?thesis
    by (intro conjI)
qed

text \<open>The rounding of the example environment on two quotients: \<open>1 - 1 / 3\<close> is the double
  that prints as \<open>0.6666666666666667\<close>, and \<open>1 - 27 / 50\<close> the one that prints as
  \<open>0.45999999999999996\<close>; neither is the exact difference.\<close>

lemma roundToDouble_examples:
  "roundToDouble (1 - roundToDouble (1 / 3)) = 3002399751580331 / 4503599627370496"
  "roundToDouble (1 - roundToDouble (1 / 3)) \<noteq> 2 / 3"
  "roundToDouble (1 - roundToDouble (27 / 50)) = 517913957147607 / 1125899906842624"
  "roundToDouble (1 - roundToDouble (27 / 50)) \<noteq> 23 / 50"
  by code_simp+

subsection \<open>The position map\<close>

text \<open>
  C3, as the code has it. The transformer returns the position-map builder as it received it,
  whatever the level and whatever is replaced; with \<open>generateSourceMaps\<close> set, the mapping
  artifact of a file is the serialisation of a builder that holds the file's base name and no
  mapping entry.
\<close>

theorem no_mapping_recorded:
  "compressFile env fs filePath options = Inr r \<Longrightarrow> generateSourceMaps options = Some True \<Longrightarrow>
   sourceMap r = Some (sourceMapToString env (newSourceMapGenerator (basename filePath)))
   \<and> mappings (newSourceMapGenerator (basename filePath)) = []
   \<and> snd (createTransformer options generator sourceFile) = generator
   \<and> snd (transformSourceFile sourceFile options generator) = generator"
  by (auto simp: compressFile_def transformSourceFile_def createTransformer_def newSourceMapGenerator_def
      split: sum.splits prod.splits)

theorem no_mapping_recorded_witness:
  "generateSourceMaps (exampleOptions AGGRESSIVE Multiple (Some True)) = Some True
   \<and> (\<exists>r. compressFile exampleEnv exampleFs ''/work/src/include.ts''
              (exampleOptions AGGRESSIVE Multiple (Some True)) = Inr r
          \<and> sourceMap r = Some (exampleToString \<lparr>file_name = ''include.ts'', mappings = []\<rparr>))"
proof -
  let ?opts = "exampleOptions AGGRESSIVE Multiple (Some True)"
  let ?run = "compressFile exampleEnv exampleFs ''/work/src/include.ts'' ?opts"
  have g: "generateSourceMaps ?opts = Some True"
    by (simp add: exampleOptions_def)
  have c: "?run = Inr (projr ?run)"
    by code_simp
  have n: "sourceMapToString exampleEnv (newSourceMapGenerator (basename ''/work/src/include.ts''))
           = exampleToString \<lparr>file_name = ''include.ts'', mappings = []\<rparr>"
    by code_simp
  from no_mapping_recorded [OF c g] n
  have k: "sourceMap (projr ?run) = Some (exampleToString \<lparr>file_name = ''include.ts'', mappings = []\<rparr>)"
    by simp
  have "\<exists>r. ?run = Inr r
          \<and> sourceMap r = Some (exampleToString \<lparr>file_name = ''include.ts'', mappings = []\<rparr>)"
    by (rule exI [of _ "projr ?run"], intro conjI) (rule c, rule k)
  with g show ?thesis
    by (intro conjI)
qed

text \<open>
  C3 as stated fails: in the scenario file the declaration name is replaced at AGGRESSIVE, source
  maps are requested, and the builder and the artifact hold no mapping entry.
\<close>

theorem replacement_without_mapping:
  "generateSourceMaps (exampleOptions AGGRESSIVE Multiple (Some True)) = Some True
   \<and> declarationNames None scenarioTree = [''longVariableName'']
   \<and> declarationNames None
        (fst (createTransformer (exampleOptions AGGRESSIVE Multiple (Some True))
                (newSourceMapGenerator ''include.ts'') scenarioTree)) = [''_16'']
   \<and> mappings (snd (createTransformer (exampleOptions AGGRESSIVE Multiple (Some True))
                (newSourceMapGenerator ''include.ts'') scenarioTree)) = []
   \<and> map_sum id sourceMap
        (compressFile exampleEnv exampleFs ''/work/src/include.ts''
           (exampleOptions AGGRESSIVE Multiple (Some True)))
       = Inr (Some (exampleToString \<lparr>file_name = ''include.ts'', mappings = []\<rparr>))"
  by code_simp

subsection \<open>Source text that is not valid\<close>

lemma compressFile_Inl:
  "(compressFile env fs filePath options = Inl e) = (readFileSync fs filePath = Inl e)"
  by (auto simp: compressFile_def split: sum.splits prod.splits)

lemma compressFile_Inr:
  "readFileSync fs filePath = Inr sourceCode \<Longrightarrow>
   compressFile env fs filePath options =
     Inr \<lparr>originalContent = sourceCode,
          transformedContent = printFile (level options \<noteq> NONE)
             (visitor options None (rootNode (createSourceFile env filePath sourceCode))),
          sourceMap = (if generateSourceMaps options = Some True
                       then Some (sourceMapToString env (newSourceMapGenerator (basename filePath)))
                       else None),
          originalPath = filePath\<rparr>"
  by (simp add: compressFile_def transformSourceFile_def createTransformer_def)

lemma compressEach_Inl:
  "f \<in> set files \<Longrightarrow> compressFile env fs f options = Inl e \<Longrightarrow>
   \<exists>e'. compressEach env fs options files = Inl e'"
  by (induction files) (auto split: sum.splits)

text \<open>
  C4, as the code has it. \<open>compressFile\<close> never looks at the parser's diagnostics: whenever the
  file can be read it returns a result, printed from the tree the parser gave. It fails exactly
  when reading the file fails, and such a failure on any resolved file makes the whole batch
  fail, with no result.
\<close>

theorem invalid_source_still_compressed:
  "(readFileSync fs filePath = Inr sourceCode \<longrightarrow>
      compressFile env fs filePath options =
        Inr \<lparr>originalContent = sourceCode,
             transformedContent = printFile (level options \<noteq> NONE)
                (visitor options None (rootNode (createSourceFile env filePath sourceCode))),
             sourceMap = (if generateSourceMaps options = Some True
                          then Some (sourceMapToString env (newSourceMapGenerator (basename filePath)))
                          else None),
             originalPath = filePath\<rparr>)
   \<and> (compressFile env fs filePath options = Inl e) = (readFileSync fs filePath = Inl e)
   \<and> (resolveInputFiles env fs inputPaths (excludePatterns options) = Inr files
        \<and> f \<in> set files \<and> readFileSync fs f = Inl e
      \<longrightarrow> (\<exists>e'. compressFiles env fs inputPaths options = Inl e'))"
proof (intro conjI impI)
  assume "readFileSync fs filePath = Inr sourceCode"
  then show "compressFile env fs filePath options =
        Inr \<lparr>originalContent = sourceCode,
             transformedContent = printFile (level options \<noteq> NONE)
                (visitor options None (rootNode (createSourceFile env filePath sourceCode))),
             sourceMap = (if generateSourceMaps options = Some True
                          then Some (sourceMapToString env (newSourceMapGenerator (basename filePath)))
                          else None),
             originalPath = filePath\<rparr>"
    by (rule compressFile_Inr)
next
  show "(compressFile env fs filePath options = Inl e) = (readFileSync fs filePath = Inl e)"
    by (rule compressFile_Inl)
next
  assume a: "resolveInputFiles env fs inputPaths (excludePatterns options) = Inr files
             \<and> f \<in> set files \<and> readFileSync fs f = Inl e"
  then have "compressFile env fs f options = Inl e"
    by (simp add: compressFile_Inl)
  with a obtain e' where "compressEach env fs options files = Inl e'"
    using compressEach_Inl by blast
  with a show "\<exists>e'. compressFiles env fs inputPaths options = Inl e'"
    by (simp add: compressFiles_def)
qed

theorem invalid_source_still_compressed_witness:
  "(readFileSync exampleFs ''/work/src/exclude.ts'' = Inr brokenText
    \<and> parseDiagnostics (createSourceFile exampleEnv ''/work/src/exclude.ts'' brokenText) \<noteq> []
    \<and> compressFile exampleEnv exampleFs ''/work/src/exclude.ts'' (exampleOptions MINIMAL Single None)
        = Inr \<lparr>originalContent = brokenText, transformedContent = ''const x = ;'',
               sourceMap = None, originalPath = ''/work/src/exclude.ts''\<rparr>)
   \<and> (resolveInputFiles exampleEnv brokenFs [''/work/lib'']
          (excludePatterns (exampleOptions MINIMAL Single None)) = Inr [''/work/lib/types.ts'']
      \<and> readFileSync brokenFs ''/work/lib/types.ts'' = Inl (EISDIR ''/work/lib/types.ts'')
      \<and> (\<exists>e'. compressFiles exampleEnv brokenFs [''/work/lib''] (exampleOptions MINIMAL Single None)
                  = Inl e'))"
proof -
  let ?opts = "exampleOptions MINIMAL Single None"
  have rd: "readFileSync exampleFs ''/work/src/exclude.ts'' = Inr brokenText"
    by code_simp
  have dg: "parseDiagnostics (createSourceFile exampleEnv ''/work/src/exclude.ts'' brokenText) \<noteq> []"
    by code_simp
  have pr: "printFile (level ?opts \<noteq> NONE)
              (visitor ?opts None (rootNode (createSourceFile exampleEnv ''/work/src/exclude.ts'' brokenText)))
            = ''const x = ;''"
    by code_simp
  have g: "generateSourceMaps ?opts = None"
    by (simp add: exampleOptions_def)
  from invalid_source_still_compressed
         [of exampleFs "''/work/src/exclude.ts''" brokenText exampleEnv ?opts]
       rd pr g
  have first: "compressFile exampleEnv exampleFs ''/work/src/exclude.ts'' ?opts
        = Inr \<lparr>originalContent = brokenText, transformedContent = ''const x = ;'',
               sourceMap = None, originalPath = ''/work/src/exclude.ts''\<rparr>"
    by simp
  have rs: "resolveInputFiles exampleEnv brokenFs [''/work/lib''] (excludePatterns ?opts)
            = Inr [''/work/lib/types.ts'']"
    by code_simp
  have bad: "readFileSync brokenFs ''/work/lib/types.ts'' = Inl (EISDIR ''/work/lib/types.ts'')"
    by code_simp
  from invalid_source_still_compressed
         [of brokenFs _ _ exampleEnv ?opts "EISDIR ''/work/lib/types.ts''" "[''/work/lib'']"
             "[''/work/lib/types.ts'']" "''/work/lib/types.ts''"]
       rs bad
  have second: "\<exists>e'. compressFiles exampleEnv brokenFs [''/work/lib''] ?opts = Inl e'"
    by simp
  from rd dg first rs bad second show ?thesis
    by (intro conjI)
qed

text \<open>
  C4 as stated fails: \<^verbatim>\<open>const x = ;\<close> is not valid source, the parser reports it, and the
  file is compressed and the batch returns a result.
\<close>

theorem invalid_source_compressed_example:
  "readFileSync exampleFs ''/work/src/exclude.ts'' = Inr brokenText
   \<and> parseDiagnostics (createSourceFile exampleEnv ''/work/src/exclude.ts'' brokenText)
       = [''Expression expected.'']
   \<and> compressFile exampleEnv exampleFs ''/work/src/exclude.ts'' (exampleOptions MINIMAL Single None)
       = Inr \<lparr>originalContent = brokenText, transformedContent = ''const x = ;'',
              sourceMap = None, originalPath = ''/work/src/exclude.ts''\<rparr>
   \<and> returned (compressFiles exampleEnv exampleFs [''/work/src/exclude.ts'']
                 (exampleOptions MINIMAL Single None))
       = Inr \<lparr>outputFiles = [''/work/dist/compressed.ts''], sourceMapFiles = None,
              stats = \<lparr>originalSize = 11, compressedSize = 11, compressionRatio = Finite 0\<rparr>\<rparr>"
  by code_simp

subsection \<open>Resolving input paths\<close>

lemma resolveLoop_append:
  "resolveLoop env fs ex acc (xs @ ys) =
     (case resolveLoop env fs ex acc xs of Inl e \<Rightarrow> Inl e | Inr acc' \<Rightarrow> resolveLoop env fs ex acc' ys)"
  by (induction xs arbitrary: acc) (auto split: sum.splits)

lemma resolveLoop_skip:
  "statSync fs p = Inr (File c) \<Longrightarrow> extname p \<noteq> ''.ts'' \<Longrightarrow>
   resolveLoop env fs ex acc (p # ys) = resolveLoop env fs ex acc ys"
  by simp

text \<open>
  C9. An input path that names an existing file whose extension is not \<open>.ts\<close> is left out
  without an error: alone it resolves to the empty list, and a batch gives the same outcome
  (the same resolved list, hence the same results, outputs and statistics, or the same error)
  with that path among its inputs as without it.
\<close>

theorem other_extension_is_omitted:
  assumes "statSync fs p = Inr (File c)" and "extname p \<noteq> ''.ts''"
  shows "resolveInputFiles env fs [p] ex = Inr []
         \<and> resolveInputFiles env fs (before @ p # after) ex = resolveInputFiles env fs (before @ after) ex
         \<and> compressFiles env fs (before @ p # after) options = compressFiles env fs (before @ after) options"
proof -
  have skip: "resolveLoop env fs x acc (p # ys) = resolveLoop env fs x acc ys" for x acc ys
    using assms by (rule resolveLoop_skip)
  have eq: "resolveInputFiles env fs (before @ p # after) x = resolveInputFiles env fs (before @ after) x" for x
    by (simp add: resolveInputFiles_def resolveLoop_append [of _ _ _ _ before] skip
          del: resolveLoop.simps split: sum.splits)
  have "resolveInputFiles env fs [p] ex = Inr []"
    by (simp only: resolveInputFiles_def skip) simp
  then show ?thesis
    using eq by (simp add: compressFiles_def)
qed

theorem other_extension_is_omitted_witness:
  "statSync exampleFs ''/work/src/notes.txt'' = Inr (File ''plain text'')
   \<and> extname ''/work/src/notes.txt'' \<noteq> ''.ts''
   \<and> resolveInputFiles exampleEnv exampleFs [''/work/src/notes.txt''] None = Inr []
   \<and> resolveInputFiles exampleEnv exampleFs [''/work/src/include.ts'', ''/work/src/notes.txt''] None
       = Inr [''/work/src/include.ts'']
   \<and> compressFiles exampleEnv exampleFs [''/work/src/include.ts'', ''/work/src/notes.txt'']
        (exampleOptions MINIMAL Multiple None)
       = compressFiles exampleEnv exampleFs [''/work/src/include.ts''] (exampleOptions MINIMAL Multiple None)"
proof -
  have s: "statSync exampleFs ''/work/src/notes.txt'' = Inr (File ''plain text'')"
    by code_simp
  have e: "extname ''/work/src/notes.txt'' \<noteq> ''.ts''"
    by code_simp
  have r: "resolveInputFiles exampleEnv exampleFs [''/work/src/include.ts''] None
           = Inr [''/work/src/include.ts'']"
    by code_simp
  from other_extension_is_omitted [OF s e, of exampleEnv None "[''/work/src/include.ts'']" "[]"
         "exampleOptions MINIMAL Multiple None"] r s e
  show ?thesis
    by simp
qed

lemma resolveLoop_sources:
  "resolveLoop env fs ex acc xs = Inr files \<Longrightarrow> f \<in> set files \<Longrightarrow>
   f \<in> set acc \<or> f \<in> set xs
   \<or> (\<exists>d\<in>set xs. f \<in> set (globSync env fs (d @ ''/**/*.ts'') (case ex of None \<Rightarrow> [] | Some ps \<Rightarrow> ps)))"
proof (induction xs arbitrary: acc)
  case Nil
  then show ?case by simp
next
  case (Cons x xs)
  from Cons.prems show ?case
    by (auto split: sum.splits if_splits dest!: Cons.IH)
qed

lemma globSync_ignored:
  "pattern \<in> set ignore \<Longrightarrow> minimatch env pattern f \<Longrightarrow> f \<notin> set (globSync env fs pat ignore)"
  by (auto simp: globSync_def list_ex_iff)

text \<open>
  The directory branch of \<open>resolveInputFiles\<close> hands the exclude patterns to the expansion:
  a path that an exclude pattern matches and that no input path names is not in the resolved
  list, and no per-file result is made for it.
\<close>

lemma directory_expansion_excludes:
  assumes "excludePatterns options = Some patterns"
      and "resolveInputFiles env fs inputPaths (excludePatterns options) = Inr files"
      and "pattern \<in> set patterns" and "minimatch env pattern f" and "f \<notin> set inputPaths"
  shows "f \<notin> set files
         \<and> (\<forall>rs. compressEach env fs options files = Inr rs \<longrightarrow> f \<notin> set (map originalPath rs))"
proof -
  have absent: "f \<notin> set files"
  proof
    assume "f \<in> set files"
    with assms(1,2) have "f \<in> set inputPaths
       \<or> (\<exists>d\<in>set inputPaths. f \<in> set (globSync env fs (d @ ''/**/*.ts'') patterns))"
      using resolveLoop_sources [of env fs "Some patterns" "[]" inputPaths files f]
      by (simp add: resolveInputFiles_def)
    with assms(3-5) show False
      using globSync_ignored by blast
  qed
  then show ?thesis
    by (auto dest: compressEach_paths)
qed

text \<open>
  C8 holds of a directory input and fails on the code when the two files are the input paths
  themselves. With the directory \<open>/work/src\<close> as input and a pattern that matches
  \<open>exclude.ts\<close>, only \<open>include.ts\<close> is resolved and written. With the two files as inputs
  and the same pattern, the file branch of \<open>resolveInputFiles\<close> does not consult the
  patterns: \<open>exclude.ts\<close> is resolved, compressed and written all the same.
\<close>

theorem named_file_is_not_excluded:
  "minimatch exampleEnv ''**/exclude.ts'' ''/work/src/exclude.ts''
   \<and> resolveInputFiles exampleEnv exampleFs [''/work/src''] (Some [''**/exclude.ts''])
       = Inr [''/work/src/include.ts'']
   \<and> map_sum id outputFiles
        (returned (compressFiles exampleEnv exampleFs [''/work/src'']
           ((exampleOptions MINIMAL Multiple None)\<lparr>excludePatterns := Some [''**/exclude.ts'']\<rparr>)))
       = Inr [''/work/dist/include.ts'']
   \<and> resolveInputFiles exampleEnv exampleFs [''/work/src/include.ts'', ''/work/src/exclude.ts'']
        (Some [''**/exclude.ts''])
       = Inr [''/work/src/include.ts'', ''/work/src/exclude.ts'']
   \<and> map_sum id outputFiles
        (returned (compressFiles exampleEnv exampleFs
           [''/work/src/include.ts'', ''/work/src/exclude.ts'']
           ((exampleOptions MINIMAL Multiple None)\<lparr>excludePatterns := Some [''**/exclude.ts'']\<rparr>)))
       = Inr [''/work/dist/include.ts'', ''/work/dist/exclude.ts'']"
  by code_simp

end
